theory Spec2Isabelle
  imports Main "HOL-Library.Word"
begin

unbundle bit_operations_syntax

section \<open>Machine types of the Go source\<close>

text \<open>
  The program is built for 64-bit hosts: Go's \<open>int\<close>, \<open>int64\<close>, \<open>uint64\<close>,
  \<open>FrameIndex\<close> (an \<open>int64\<close>) and \<open>time.Duration\<close> (an \<open>int64\<close> of nanoseconds) are
  64-bit words whose arithmetic wraps silently; \<open>sint\<close> reads the signed ones.
  \<open>RawType\<close> is a \<open>uint16\<close>. A \<open>time.Time\<close> is an instant, modelled as its number of
  nanoseconds since the Unix epoch (an unbounded integer). A slice is a list; its length
  is a natural number.
\<close>

type_synonym go_int = "64 word"
type_synonym FrameIndex = "64 word"
type_synonym Duration = "64 word"
type_synonym RawType = "16 word"
type_synonym go_time = int

text \<open>\<open>Time.Add(d)\<close>: the instant \<open>d\<close> nanoseconds later (earlier when \<open>d\<close> is negative).\<close>

definition time_Add :: "go_time \<Rightarrow> Duration \<Rightarrow> go_time" where
  "time_Add t d = t + sint d"

section \<open>RowColCode (data_source.go, lines 141--162)\<close>

type_synonym RowColCode = "64 word"

definition rc_row :: "RowColCode \<Rightarrow> go_int" where
  "rc_row c = (drop_bit 0 c) AND 0xffff"

definition rc_col :: "RowColCode \<Rightarrow> go_int" where
  "rc_col c = (drop_bit 16 c) AND 0xffff"

definition rc_rows :: "RowColCode \<Rightarrow> go_int" where
  "rc_rows c = (drop_bit 32 c) AND 0xffff"

definition rc_cols :: "RowColCode \<Rightarrow> go_int" where
  "rc_cols c = (drop_bit 48 c) AND 0xffff"

definition rcCode :: "go_int \<Rightarrow> go_int \<Rightarrow> go_int \<Rightarrow> go_int \<Rightarrow> RowColCode" where
  "rcCode row col rows cols =
     (let code = cols AND 0xffff;
          code = push_bit 16 code OR (rows AND 0xffff);
          code = push_bit 16 code OR (col AND 0xffff);
          code = push_bit 16 code OR (row AND 0xffff)
      in code)"

section \<open>DataSegment and DataStream (data_source.go, lines 699--769)\<close>

text \<open>
  \<open>voltsPerArb\<close> is a \<open>float32\<close>; it is carried as its 32-bit pattern and never
  computed with.
\<close>

record DataSegment =
  rawData :: "RawType list"
  signed :: bool
  framesPerSample :: go_int
  firstFramenum :: FrameIndex
  firstTime :: go_time
  framePeriod :: Duration
  voltsPerArb :: "32 word"
  processed :: bool

record DataStream = DataSegment +
  samplesSeen :: go_int

text \<open>
  \<open>AppendSegment\<close> mutates the stream in place; the model returns the updated stream.
  \<open>timeNowInStream\<close> is computed from the stream's frame period before that field is
  overwritten, as in the source.
\<close>

definition AppendSegment :: "DataStream \<Rightarrow> DataSegment \<Rightarrow> DataStream" where
  "AppendSegment stream segment =
     (let framesNowInStream = of_nat (length (rawData stream)) * framesPerSample segment;
          timeNowInStream = framesNowInStream * framePeriod stream
      in stream
           \<lparr> rawData := rawData stream @ rawData segment,
             framesPerSample := framesPerSample segment,
             firstFramenum := firstFramenum segment - framesNowInStream,
             firstTime := time_Add (firstTime segment) (- timeNowInStream),
             framePeriod := framePeriod segment,
             samplesSeen := samplesSeen stream + of_nat (length (rawData segment)) \<rparr>)"

text \<open>
  The absolute frame index of sample number \<open>i\<close> of a segment or stream: the first sample
  is frame \<open>firstFramenum\<close> and consecutive samples are \<open>framesPerSample\<close> frames apart
  (the frame analogue of \<open>TimeOf\<close>).
\<close>

definition frameOf :: "'a DataSegment_scheme \<Rightarrow> nat \<Rightarrow> FrameIndex" where
  "frameOf seg i = firstFramenum seg + of_nat i * framesPerSample seg"

text \<open>
  Go's \<open>copy(dst, src)\<close> on two windows of one slice behaves like \<open>memmove\<close>: here
  \<open>dst\<close> is the first \<open>n\<close> elements and \<open>src\<close> the last \<open>n\<close>.
\<close>

definition copy_tail_to_head :: "nat \<Rightarrow> 'a list \<Rightarrow> 'a list" where
  "copy_tail_to_head n xs = drop (length xs - n) xs @ drop n xs"

text \<open>
  \<open>TrimKeepingN\<close> returns the new length and mutates the stream. With \<open>N < 0\<close> the
  slice expression \<open>rawData[:N]\<close> panics (slice bounds out of range): \<open>None\<close>.
\<close>

definition TrimKeepingN :: "DataStream \<Rightarrow> go_int \<Rightarrow> (DataStream \<times> go_int) option" where
  "TrimKeepingN stream N =
     (let L = length (rawData stream) in
      if int L \<le> sint N then Some (stream, of_nat L)
      else if sint N < 0 then None
      else
        let n = nat (sint N);
            deltaFrames = (of_nat L - N) * framesPerSample stream
        in Some (stream
                   \<lparr> rawData := take n (copy_tail_to_head n (rawData stream)),
                     firstFramenum := firstFramenum stream + deltaFrames,
                     firstTime := time_Add (firstTime stream) (deltaFrames * framePeriod stream) \<rparr>,
                 N))"

section \<open>Concrete streams and segments\<close>

definition trim_stream_fps2 :: DataStream where
  "trim_stream_fps2 =
     \<lparr> rawData = [10, 20, 30], signed = False, framesPerSample = 2, firstFramenum = 100,
       firstTime = 0, framePeriod = 1000, voltsPerArb = 0, processed = False,
       samplesSeen = 3 \<rparr>"

definition append_stream_ex :: DataStream where
  "append_stream_ex =
     \<lparr> rawData = [1, 2], signed = False, framesPerSample = 1, firstFramenum = 50,
       firstTime = 5000, framePeriod = 100, voltsPerArb = 0, processed = False,
       samplesSeen = 2 \<rparr>"

definition append_segment_ex :: DataSegment where
  "append_segment_ex =
     \<lparr> rawData = [7, 8, 9], signed = False, framesPerSample = 4, firstFramenum = 1000,
       firstTime = 100000, framePeriod = 25, voltsPerArb = 0, processed = False \<rparr>"

section \<open>DataRecord and the summary message (data_source.go, lines 771--793; publish_data.go, lines 423--455)\<close>

text \<open>
  A \<open>float64\<close> or \<open>float32\<close> is carried as its IEEE bit pattern; no floating-point
  arithmetic is modelled. The fields \<open>signed\<close> and \<open>voltsPerArb\<close> of a DataRecord are
  named \<open>rec_signed\<close> and \<open>rec_voltsPerArb\<close> here, apart from the DataSegment fields of
  the same names. \<open>messageSummaries\<close> reads the channel as \<open>rec.channum\<close>; the struct
  declaration under data_source.go calls that field \<open>channelIndex\<close>.
\<close>

type_synonym float64 = "64 word"
type_synonym float32 = "32 word"
type_synonym byte = "8 word"

record DataRecord =
  data :: "RawType list"
  trigFrame :: FrameIndex
  trigTime :: go_time
  rec_signed :: bool
  channum :: go_int
  presamples :: go_int
  rec_voltsPerArb :: float32
  sampPeriod :: float32
  pretrigMean :: float64
  pulseAverage :: float64
  pulseRMS :: float64
  peakValue :: float64
  modelCoefs :: "float64 list"
  residualStdDev :: float64

text \<open>\<open>Time.UnixNano()\<close>: the instant as an \<open>int64\<close> count of nanoseconds.\<close>

definition UnixNano :: "go_time \<Rightarrow> 64 word" where
  "UnixNano t = word_of_int t"

text \<open>
  Modelled from the spec: the package \<open>getbytes\<close> (\<open>FromUint8\<close>, \<open>FromUint16\<close>,
  \<open>FromUint32\<close>, \<open>FromFloat32\<close>, \<open>FromInt64\<close>, \<open>FromSliceFloat64\<close>) is not among the
  sources. The spec lays every published value out little-endian, in the width of its
  type: \<open>le_bytes n w\<close> is the \<open>n\<close> low bytes of \<open>w\<close>, least significant first.
\<close>

primrec le_bytes :: "nat \<Rightarrow> 'a::len word \<Rightarrow> byte list" where
  "le_bytes 0 w = []"
| "le_bytes (Suc n) w = ucast w # le_bytes n (drop_bit 8 w)"

definition FromUint8 :: "8 word \<Rightarrow> byte list" where
  "FromUint8 w = le_bytes 1 w"

definition FromUint16 :: "16 word \<Rightarrow> byte list" where
  "FromUint16 w = le_bytes 2 w"

definition FromUint32 :: "32 word \<Rightarrow> byte list" where
  "FromUint32 w = le_bytes 4 w"

definition FromFloat32 :: "float32 \<Rightarrow> byte list" where
  "FromFloat32 w = le_bytes 4 w"

definition FromInt64 :: "64 word \<Rightarrow> byte list" where
  "FromInt64 w = le_bytes 8 w"

definition FromSliceFloat64 :: "float64 list \<Rightarrow> byte list" where
  "FromSliceFloat64 xs = concat (map (le_bytes 8) xs)"

text \<open>
  Reading a little-endian byte string back as a word: the reader's view of a frame.
\<close>

primrec le_word :: "byte list \<Rightarrow> 'a::len word" where
  "le_word [] = 0"
| "le_word (b # bs) = ucast b OR push_bit 8 (le_word bs)"

text \<open>
  \<open>messageSummaries\<close>. The conversion \<open>float32(x)\<close> of a \<open>float64\<close> (IEEE rounding)
  is the parameter \<open>narrow\<close>. \<open>header.Write\<close> appends to the buffer; the result is the
  two frames, header first.
\<close>

definition messageSummaries :: "(float64 \<Rightarrow> float32) \<Rightarrow> DataRecord \<Rightarrow> byte list list" where
  "messageSummaries narrow rec =
     (let headerVersion = (0 :: 8 word);
          header = [];
          header = header @ FromUint16 (ucast (channum rec));
          header = header @ FromUint8 headerVersion;
          header = header @ FromUint32 (ucast (presamples rec));
          header = header @ FromUint32 (of_nat (length (data rec)));
          header = header @ FromFloat32 (narrow (pretrigMean rec));
          header = header @ FromFloat32 (narrow (peakValue rec));
          header = header @ FromFloat32 (narrow (pulseRMS rec));
          header = header @ FromFloat32 (narrow (pulseAverage rec));
          header = header @ FromFloat32 (narrow (residualStdDev rec));
          nano = UnixNano (trigTime rec);
          header = header @ FromInt64 nano;
          header = header @ FromInt64 (trigFrame rec)
      in [header, FromSliceFloat64 (modelCoefs rec)])"

text \<open>
  A record for evaluation: channel 5, 2 presamples, 3 samples, two coefficients; and a
  stand-in for the narrowing conversion (the upper half of the bit pattern), since the
  layout does not depend on which conversion is used.
\<close>

definition narrow_ex :: "float64 \<Rightarrow> float32" where
  "narrow_ex x = ucast (drop_bit 32 x)"

definition summary_record_ex :: DataRecord where
  "summary_record_ex =
     \<lparr> data = [100, 200, 300], trigFrame = 0x0102030405060708,
       trigTime = 1500000000123456789, rec_signed = False, channum = 5, presamples = 2,
       rec_voltsPerArb = 0, sampPeriod = 0, pretrigMean = 0x4059000000000000,
       pulseAverage = 0, pulseRMS = 0, peakValue = 0,
       modelCoefs = [0x3FF0000000000000, 0x4000000000000000],
       residualStdDev = 0 \<rparr>"

section \<open>Outcomes, errors and the operating system\<close>

text \<open>
  A Go function either returns or panics. A returned \<open>error\<close> is \<open>None\<close> for \<open>nil\<close>.
  Each \<open>fmt.Errorf\<close> site of the modelled functions is one constructor.
\<close>

datatype 'a outcome = Return 'a | Panic

datatype error =
    ErrAllWriteFlagsFalse
  | ErrWritingInProgress bool bool bool
  | ErrCouldNotMakeDirectory error
  | ErrNoProjectorsLoaded
  | ErrRequestFormatInvalid string
  | ErrRequestUnknown string
  | ErrNoValidChannelIndicies
  | ErrChannelIndexTooLarge go_int go_int
  | ErrBasePathEmpty
  | ErrOutOfIDNumbers string
  | ErrMkdirFailed string
  | ErrNotExist string
  | ErrCreateFailed string
  | ErrFileClosed

text \<open>
  The part of the operating system the modelled functions touch: the wall clock, the
  local date as \<open>time.Now().Format("20060102")\<close> prints it, the directories that exist,
  the contents of files by path, and the \<open>*os.File\<close> objects (numbered; each has a path
  and may have been closed). Whether \<open>os.MkdirAll\<close> and \<open>os.Create\<close> succeed on a path
  is the environment's choice (\<open>mkdir_ok\<close>, \<open>create_ok\<close>). Writing to an open file
  succeeds; writing to a closed one fails. \<open>closed_writers\<close> lists the file names of the
  pulse-file writers that have been closed.
\<close>

record world =
  now :: go_time
  today :: string
  dirs :: "string list"
  mkdir_ok :: "string \<Rightarrow> bool"
  create_ok :: "string \<Rightarrow> bool"
  disk :: "string \<rightharpoonup> string"
  fd_path :: "nat \<Rightarrow> string"
  fd_closed :: "nat \<Rightarrow> bool"
  next_fd :: nat
  closed_writers :: "string list"

definition os_MkdirAll :: "world \<Rightarrow> string \<Rightarrow> error option \<times> world" where
  "os_MkdirAll w p =
     (if mkdir_ok w p then (None, w\<lparr> dirs := p # dirs w \<rparr>)
      else (Some (ErrMkdirFailed p), w))"

definition os_Create :: "world \<Rightarrow> string \<Rightarrow> (error + nat) \<times> world" where
  "os_Create w p =
     (if create_ok w p
      then (Inr (next_fd w),
            w\<lparr> disk := (disk w)(p \<mapsto> []),
               fd_path := (fd_path w)(next_fd w := p),
               fd_closed := (fd_closed w)(next_fd w := False),
               next_fd := Suc (next_fd w) \<rparr>)
      else (Inl (ErrCreateFailed p), w))"

definition file_WriteString :: "world \<Rightarrow> nat \<Rightarrow> string \<Rightarrow> error option \<times> world" where
  "file_WriteString w fd s =
     (if fd_closed w fd then (Some ErrFileClosed, w)
      else (None,
            w\<lparr> disk := (disk w)(fd_path w fd \<mapsto>
                  (case disk w (fd_path w fd) of None \<Rightarrow> [] | Some c \<Rightarrow> c) @ s) \<rparr>))"

definition file_Close :: "world \<Rightarrow> nat \<Rightarrow> world" where
  "file_Close w fd = w\<lparr> fd_closed := (fd_closed w)(fd := True) \<rparr>"

subsection \<open>Strings and formatting\<close>

text \<open>
  \<open>strings.ToUpper\<close> on the ASCII letters (a request is an ASCII command word);
  \<open>strings.HasPrefix\<close>; decimal printing as \<open>%v\<close> and \<open>%4.4d\<close> do; and \<open>fmt.Sprintf\<close>
  for patterns whose only verbs are \<open>%s\<close> and \<open>%%\<close>.
\<close>

definition upper_char :: "char \<Rightarrow> char" where
  "upper_char c =
     (case map_of (zip ''abcdefghijklmnopqrstuvwxyz'' ''ABCDEFGHIJKLMNOPQRSTUVWXYZ'') c of
        Some u \<Rightarrow> u
      | None \<Rightarrow> c)"

definition ToUpper :: "string \<Rightarrow> string" where
  "ToUpper s = map upper_char s"

definition HasPrefix :: "string \<Rightarrow> string \<Rightarrow> bool" where
  "HasPrefix s p = (take (length p) s = p)"

definition digit_char :: "nat \<Rightarrow> char" where
  "digit_char d = ''0123456789'' ! (d mod 10)"

function show_nat :: "nat \<Rightarrow> string" where
  "show_nat n = (if n < 10 then [digit_char n] else show_nat (n div 10) @ [digit_char n])"
  by pat_completeness auto
termination
  by (relation "measure id") auto

declare show_nat.simps [simp del]

definition show_int :: "int \<Rightarrow> string" where
  "show_int i = (if i < 0 then CHR ''-'' # show_nat (nat (- i)) else show_nat (nat i))"

definition pad4 :: "nat \<Rightarrow> string" where
  "pad4 i = [digit_char (i div 1000), digit_char (i div 100), digit_char (i div 10),
             digit_char i]"

fun Sprintf :: "string \<Rightarrow> string list \<Rightarrow> string" where
  "Sprintf [] args = []"
| "Sprintf [c] args = [c]"
| "Sprintf (c # d # rest) args =
     (if c = CHR ''%'' \<and> d = CHR ''%'' then CHR ''%'' # Sprintf rest args
      else if c = CHR ''%'' \<and> d = CHR ''s'' then
        (case args of
           [] \<Rightarrow> ''%!s(MISSING)'' @ Sprintf rest []
         | a # as \<Rightarrow> a @ Sprintf rest as)
      else c # Sprintf (d # rest) args)"

subsection \<open>makeDirectory (data_source.go, lines 263--287)\<close>

text \<open>
  The loop \<open>for i := 0; i < 10000; i++\<close> runs on the number of iterations left.
  \<open>os.Stat\<close> reports that a directory does not exist exactly when it is not among
  \<open>dirs\<close>. When the second \<open>MkdirAll\<close> fails, the source returns \<open>err\<close>, the error of
  \<open>os.Stat\<close>, not \<open>err2\<close>.
\<close>

primrec makeDirectory_loop ::
  "world \<Rightarrow> string \<Rightarrow> nat \<Rightarrow> nat \<Rightarrow> (error + string) \<times> world" where
  "makeDirectory_loop w todayDir i 0 = (Inl (ErrOutOfIDNumbers todayDir), w)"
| "makeDirectory_loop w todayDir i (Suc k) =
     (let thisDir = todayDir @ ''/'' @ pad4 i in
      if thisDir \<notin> set (dirs w) then
        (case os_MkdirAll w thisDir of
           (Some err2, w') \<Rightarrow> (Inl (ErrNotExist thisDir), w')
         | (None, w') \<Rightarrow>
             (Inr (thisDir @ ''/'' @ today w @ ''_run'' @ pad4 i @ ''_%s.%s''), w'))
      else makeDirectory_loop w todayDir (Suc i) k)"

definition makeDirectory :: "world \<Rightarrow> string \<Rightarrow> (error + string) \<times> world" where
  "makeDirectory w basepath =
     (if length basepath = 0 then (Inl ErrBasePathEmpty, w)
      else
        let todayDir = basepath @ ''/'' @ today w in
        case os_MkdirAll w todayDir of
          (Some err, w') \<Rightarrow> (Inl err, w')
        | (None, w') \<Rightarrow> makeDirectory_loop w' todayDir 0 10000)"

section \<open>WritingState (data_source.go, lines 238--261 and 435--445)\<close>

text \<open>
  \<open>experimentStateFile\<close> is a \<open>*os.File\<close>: \<open>None\<close> for the nil pointer, otherwise the
  number of the file object. A WritingState is copied by value, the pointer with it.
  \<open>ExperimentStateLabelUnixNano\<close> is a Go \<open>int\<close>.
\<close>

record WritingState =
  Active :: bool
  Paused :: bool
  BasePath :: string
  FilenamePattern :: string
  experimentStateFile :: "nat option"
  ExperimentStateFilename :: string
  ExperimentStateLabel :: string
  ExperimentStateLabelUnixNano :: go_int

text \<open>\<open>Time.Nanosecond()\<close>: the nanosecond offset within the second, in \<open>[0, 999999999]\<close>.\<close>

definition Nanosecond :: "go_time \<Rightarrow> go_int" where
  "Nanosecond t = word_of_int (t mod 1000000000)"

text \<open>
  \<open>SetExperimentStateLabel\<close> mutates the WritingState it is called on and the file
  system; the model returns the error, the WritingState and the world. The header write
  cannot fail here (the file has just been created and is open), so the branch that
  returns on \<open>err1\<close> only threads the world.
\<close>

definition SetExperimentStateLabel ::
  "world \<Rightarrow> WritingState \<Rightarrow> string \<Rightarrow> error option \<times> WritingState \<times> world" where
  "SetExperimentStateLabel w writingState stateLabel =
     (let opened =
        (case experimentStateFile writingState of
           None \<Rightarrow>
             (case os_Create w (ExperimentStateFilename writingState) of
                (Inl err, w1) \<Rightarrow> Inl (Some err, writingState, w1)
              | (Inr fd, w1) \<Rightarrow>
                  (case file_WriteString w1 fd ''# unix time in nanoseconds, state label'' of
                     (Some err1, w2) \<Rightarrow>
                       Inl (None, writingState\<lparr> experimentStateFile := Some fd \<rparr>, w2)
                   | (None, w2) \<Rightarrow>
                       Inr (fd, writingState\<lparr> experimentStateFile := Some fd \<rparr>, w2)))
         | Some fd \<Rightarrow> Inr (fd, writingState, w))
      in case opened of
           Inl r \<Rightarrow> r
         | Inr (fd, ws1, w3) \<Rightarrow>
             (let ws2 = ws1\<lparr> ExperimentStateLabel := stateLabel,
                             ExperimentStateLabelUnixNano := Nanosecond (now w3) \<rparr>;
                  line = show_int (sint (ExperimentStateLabelUnixNano ws2)) @ '', ''
                           @ stateLabel @ [CHR 0x0A]
              in case file_WriteString w3 fd line of
                   (Some err, w4) \<Rightarrow> (Some err, ws2, w4)
                 | (None, w4) \<Rightarrow> (None, ws2, w4)))"

section \<open>Channel processors and their publishers\<close>

text \<open>
  The pulse-file writers belong to the packages \<open>ljh\<close> and \<open>off\<close>, and
  \<open>DataStreamProcessor\<close> to another file; none is among the sources. A writer is kept
  as the integer and string arguments \<open>WriteControl\<close> passes to \<open>SetLJH22\<close>, \<open>SetOFF\<close>
  and \<open>SetLJH3\<close> (the floating-point time base and the run start are left out). A
  gonum matrix is its dimensions and entries; \<open>IsZero\<close> says it is zero-sized.
  The type of a \<open>TriggerState\<close>, declared elsewhere, is the parameter \<open>'ts\<close>.
  A processor embeds its \<open>DataPublisher\<close> (the field \<open>Publisher\<close> here) and its
  \<open>TriggerState\<close>; a \<open>FullTriggerState\<close> embeds a \<open>TriggerState\<close> too (the field
  \<open>fts_TriggerState\<close>).
\<close>

datatype mat_Dense = Dense nat nat "float64 list"

fun IsZero :: "mat_Dense \<Rightarrow> bool" where
  "IsZero (Dense r c xs) = (r = 0 \<or> c = 0)"

record ljh_Writer =
  ChanNum :: go_int
  Presamples :: go_int
  Samples :: go_int
  FramesPerSample :: go_int
  NumberOfRows :: go_int
  NumberOfColumns :: go_int
  NumberOfChans :: go_int
  RowNum :: go_int
  ColNum :: go_int
  FileName :: string
  SourceName :: string
  ChanName :: string
  ChanNumber :: go_int

record off_Writer = ljh_Writer +
  Projectors :: mat_Dense
  Basis :: mat_Dense
  ModelDescription :: string

record ljh_Writer3 =
  ChanNum3 :: go_int
  NumberOfRows3 :: go_int
  NumberOfColumns3 :: go_int
  FileName3 :: string

record DataPublisher =
  LJH22 :: "ljh_Writer option"
  LJH3 :: "ljh_Writer3 option"
  OFF :: "off_Writer option"
  WritingPaused :: bool

record 'ts DataStreamProcessor =
  Name :: string
  NPresamples :: go_int
  NSamples :: go_int
  Decimate :: bool
  DecimateLevel :: go_int
  TriggerState :: 'ts
  Publisher :: DataPublisher
  projectors :: mat_Dense
  basis :: mat_Dense
  modelDescription :: string

subsection \<open>DataPublisher (publish_data.go, lines 239--320)\<close>

definition HasLJH22 :: "DataPublisher \<Rightarrow> bool" where
  "HasLJH22 dp = (LJH22 dp \<noteq> None)"

definition HasOFF :: "DataPublisher \<Rightarrow> bool" where
  "HasOFF dp = (OFF dp \<noteq> None)"

definition HasLJH3 :: "DataPublisher \<Rightarrow> bool" where
  "HasLJH3 dp = (LJH3 dp \<noteq> None)"

text \<open>
  Modelled from the spec: the \<open>Close\<close> methods of the writers are not among the sources.
  By the spec \<open>close()\<close> finalizes the writer's file; here it enters the file name
  among \<open>closed_writers\<close>. \<open>Close\<close> works on the fields of its receiver, so calling it
  through a nil pointer is a nil dereference, a run-time panic: the guards
  \<open>if dp.LJH22 != nil\<close> and \<open>if dp.LJH3 != nil\<close> below are there for that.
\<close>

definition writer_Close :: "world \<Rightarrow> string \<Rightarrow> world" where
  "writer_Close w fname = w\<lparr> closed_writers := closed_writers w @ [fname] \<rparr>"

definition RemoveLJH22 :: "world \<Rightarrow> DataPublisher \<Rightarrow> (DataPublisher \<times> world) outcome" where
  "RemoveLJH22 w dp =
     (case LJH22 dp of
        Some wr \<Rightarrow> Return (dp\<lparr> LJH22 := None \<rparr>, writer_Close w (FileName wr))
      | None \<Rightarrow> Return (dp\<lparr> LJH22 := None \<rparr>, w))"

text \<open>\<open>RemoveOFF\<close> calls \<open>dp.OFF.Close()\<close> with no guard.\<close>

definition RemoveOFF :: "world \<Rightarrow> DataPublisher \<Rightarrow> (DataPublisher \<times> world) outcome" where
  "RemoveOFF w dp =
     (case OFF dp of
        Some wr \<Rightarrow> Return (dp\<lparr> OFF := None \<rparr>, writer_Close w (FileName wr))
      | None \<Rightarrow> Panic)"

definition RemoveLJH3 :: "world \<Rightarrow> DataPublisher \<Rightarrow> (DataPublisher \<times> world) outcome" where
  "RemoveLJH3 w dp =
     (case LJH3 dp of
        Some wr \<Rightarrow> Return (dp\<lparr> LJH3 := None \<rparr>, writer_Close w (FileName3 wr))
      | None \<Rightarrow> Return (dp\<lparr> LJH3 := None \<rparr>, w))"

text \<open>
  Modelled from the spec: \<open>DataPublisher.SetPause\<close> is not among the sources. By the
  spec PAUSE and UNPAUSE toggle a per-channel pause flag consulted by the publisher.
\<close>

definition SetPause :: "bool \<Rightarrow> DataPublisher \<Rightarrow> DataPublisher" where
  "SetPause b dp = dp\<lparr> WritingPaused := b \<rparr>"

text \<open>
  Modelled from the spec: \<open>DataStreamProcessor.ConfigureTrigger\<close> is not among the
  sources. It installs the given TriggerState on the channel.
\<close>

definition ConfigureTrigger :: "'ts \<Rightarrow> 'ts DataStreamProcessor \<Rightarrow> 'ts DataStreamProcessor" where
  "ConfigureTrigger ts dsp = dsp\<lparr> TriggerState := ts \<rparr>"

section \<open>AnySource (data_source.go, lines 164--188)\<close>

text \<open>
  The fields the modelled methods read or write. \<open>processors\<close> is a slice of pointers to
  distinct processors; \<open>writingState\<close> is the atomically stored copy.
\<close>

record 'ts AnySource =
  nchan :: go_int
  name :: string
  chanNames :: "string list"
  chanNumbers :: "go_int list"
  rowColCodes :: "RowColCode list"
  processors :: "'ts DataStreamProcessor list"
  writingState :: WritingState

record WriteControlConfig =
  Request :: string
  Path :: string
  WriteLJH22 :: bool
  WriteOFF :: bool
  WriteLJH3 :: bool

record 'ts FullTriggerState =
  ChannelIndicies :: "go_int list"
  fts_TriggerState :: 'ts

subsection \<open>ChangeTriggerState (data_source.go, lines 661--676)\<close>

text \<open>
  The first loop returns an error at the first index that is \<open>>= ds.nchan\<close>. The second
  loop indexes \<open>ds.processors[channelIndex]\<close>: an index that is negative or not below
  the length of the slice panics (index out of range).
\<close>

fun check_indices :: "go_int \<Rightarrow> go_int list \<Rightarrow> error option" where
  "check_indices n [] = None"
| "check_indices n (channelIndex # rest) =
     (if sint n \<le> sint channelIndex then Some (ErrChannelIndexTooLarge channelIndex n)
      else check_indices n rest)"

fun configure_indices ::
  "'ts \<Rightarrow> 'ts DataStreamProcessor list \<Rightarrow> go_int list \<Rightarrow> 'ts DataStreamProcessor list outcome" where
  "configure_indices ts procs [] = Return procs"
| "configure_indices ts procs (channelIndex # rest) =
     (if sint channelIndex < 0 \<or> int (length procs) \<le> sint channelIndex then Panic
      else configure_indices ts
             (procs[nat (sint channelIndex) := ConfigureTrigger ts (procs ! nat (sint channelIndex))])
             rest)"

definition ChangeTriggerState ::
  "'ts AnySource \<Rightarrow> 'ts FullTriggerState \<Rightarrow> (error option \<times> 'ts AnySource) outcome" where
  "ChangeTriggerState ds state =
     (if length (ChannelIndicies state) < 1 then Return (Some ErrNoValidChannelIndicies, ds)
      else
        case check_indices (nchan ds) (ChannelIndicies state) of
          Some err \<Rightarrow> Return (Some err, ds)
        | None \<Rightarrow>
            (case configure_indices (fts_TriggerState state) (processors ds)
                    (ChannelIndicies state) of
               Panic \<Rightarrow> Panic
             | Return procs \<Rightarrow> Return (None, ds\<lparr> processors := procs \<rparr>)))"

subsection \<open>WriteControl (data_source.go, lines 289--433)\<close>

text \<open>
  The mutexes (\<open>changeMutex\<close>) order concurrent callers and are not modelled: one call
  runs alone. The loops over \<open>ds.processors\<close> are recursions over the list.
\<close>

fun check_not_writing :: "'ts DataStreamProcessor list \<Rightarrow> error option" where
  "check_not_writing [] = None"
| "check_not_writing (dsp # rest) =
     (if HasLJH22 (Publisher dsp) \<or> HasOFF (Publisher dsp) \<or> HasLJH3 (Publisher dsp)
      then Some (ErrWritingInProgress (HasLJH22 (Publisher dsp)) (HasOFF (Publisher dsp))
                   (HasLJH3 (Publisher dsp)))
      else check_not_writing rest)"

fun anyProjectorsSet :: "'ts DataStreamProcessor list \<Rightarrow> bool" where
  "anyProjectorsSet [] = False"
| "anyProjectorsSet (dsp # rest) =
     (if \<not> (IsZero (projectors dsp) \<or> IsZero (basis dsp)) then True
      else anyProjectorsSet rest)"

text \<open>
  The checks made before any change: the result is the error, or the file name pattern,
  the path and the local copy of the WritingState (which \<open>UNPAUSE label\<close> has updated).
\<close>

definition WriteControl_checks ::
  "world \<Rightarrow> 'ts AnySource \<Rightarrow> WriteControlConfig
     \<Rightarrow> (error + string \<times> string \<times> WritingState) \<times> world" where
  "WriteControl_checks w ds config =
     (let writingState = writingState ds;
          request = ToUpper (Request config)
      in
      if HasPrefix request ''START'' then
        (if \<not> (WriteLJH22 config \<or> WriteOFF config \<or> WriteLJH3 config)
         then (Inl ErrAllWriteFlagsFalse, w)
         else
           case check_not_writing (processors ds) of
             Some err \<Rightarrow> (Inl err, w)
           | None \<Rightarrow>
               (let path = (if length (Path config) > 0 then Path config
                            else BasePath writingState)
                in case makeDirectory w path of
                     (Inl err, w1) \<Rightarrow> (Inl (ErrCouldNotMakeDirectory err), w1)
                   | (Inr filenamePattern, w1) \<Rightarrow>
                       (if WriteOFF config \<and> \<not> anyProjectorsSet (processors ds)
                        then (Inl ErrNoProjectorsLoaded, w1)
                        else (Inr (filenamePattern, path, writingState), w1))))
      else if HasPrefix request ''UNPAUSE'' \<and> length (Request config) > 7 then
        (if take 1 (drop 7 (Request config)) \<noteq> '' '' \<or> length (Request config) = 8
         then (Inl (ErrRequestFormatInvalid (Request config)), w)
         else
           case SetExperimentStateLabel w writingState (drop 8 (Request config)) of
             (Some err, ws1, w1) \<Rightarrow> (Inl err, w1)
           | (None, ws1, w1) \<Rightarrow> (Inr ([], [], ws1), w1))
      else (Inr ([], [], writingState), w))"

definition pause_all ::
  "bool \<Rightarrow> 'ts DataStreamProcessor list \<Rightarrow> 'ts DataStreamProcessor list" where
  "pause_all b procs = map (\<lambda>dsp. dsp\<lparr> Publisher := SetPause b (Publisher dsp) \<rparr>) procs"

fun stop_all ::
  "world \<Rightarrow> 'ts DataStreamProcessor list \<Rightarrow> ('ts DataStreamProcessor list \<times> world) outcome" where
  "stop_all w [] = Return ([], w)"
| "stop_all w (dsp # rest) =
     (case RemoveLJH22 w (Publisher dsp) of
        Panic \<Rightarrow> Panic
      | Return (dp1, w1) \<Rightarrow>
     (case RemoveOFF w1 dp1 of
        Panic \<Rightarrow> Panic
      | Return (dp2, w2) \<Rightarrow>
     (case RemoveLJH3 w2 dp2 of
        Panic \<Rightarrow> Panic
      | Return (dp3, w3) \<Rightarrow>
     (case stop_all w3 rest of
        Panic \<Rightarrow> Panic
      | Return (rest', w4) \<Rightarrow> Return (dsp\<lparr> Publisher := dp3 \<rparr> # rest', w4)))))"

text \<open>
  The START loop, channel \<open>i\<close> onwards. \<open>ds.rowColCodes[i]\<close>, \<open>ds.chanNames[i]\<close> and
  \<open>ds.chanNumbers[i]\<close> panic when \<open>i\<close> is out of range.
\<close>

definition start_header ::
  "'ts AnySource \<Rightarrow> 'ts DataStreamProcessor \<Rightarrow> nat \<Rightarrow> string \<Rightarrow> ljh_Writer" where
  "start_header ds dsp i filename =
     \<lparr> ChanNum = of_nat i,
       Presamples = NPresamples dsp,
       Samples = NSamples dsp,
       FramesPerSample = (if Decimate dsp then DecimateLevel dsp else 1),
       NumberOfRows = rc_rows (rowColCodes ds ! i),
       NumberOfColumns = rc_cols (rowColCodes ds ! i),
       NumberOfChans = nchan ds,
       RowNum = rc_row (rowColCodes ds ! i),
       ColNum = rc_col (rowColCodes ds ! i),
       FileName = filename,
       SourceName = name ds,
       ChanName = chanNames ds ! i,
       ChanNumber = chanNumbers ds ! i \<rparr>"

fun start_all ::
  "'ts AnySource \<Rightarrow> WriteControlConfig \<Rightarrow> string \<Rightarrow> nat \<Rightarrow> 'ts DataStreamProcessor list
     \<Rightarrow> 'ts DataStreamProcessor list outcome" where
  "start_all ds config filenamePattern i [] = Return []"
| "start_all ds config filenamePattern i (dsp # rest) =
     (if length (rowColCodes ds) \<le> i then Panic
      else if (WriteLJH22 config \<or> (WriteOFF config \<and> \<not> IsZero (projectors dsp)))
              \<and> (length (chanNames ds) \<le> i \<or> length (chanNumbers ds) \<le> i) then Panic
      else
        let dp = Publisher dsp;
            dp = (if WriteLJH22 config
                  then dp\<lparr> LJH22 := Some (start_header ds dsp i
                               (Sprintf filenamePattern [Name dsp, ''ljh''])) \<rparr>
                  else dp);
            dp = (if WriteOFF config \<and> \<not> IsZero (projectors dsp)
                  then dp\<lparr> OFF := Some (ljh_Writer.extend
                               (start_header ds dsp i
                                  (Sprintf filenamePattern [Name dsp, ''off'']))
                               (off_Writer.fields (projectors dsp) (basis dsp)
                                  (modelDescription dsp))) \<rparr>
                  else dp);
            dp = (if WriteLJH3 config
                  then dp\<lparr> LJH3 := Some
                               \<lparr> ChanNum3 = of_nat i,
                                 NumberOfRows3 = rc_rows (rowColCodes ds ! i),
                                 NumberOfColumns3 = rc_cols (rowColCodes ds ! i),
                                 FileName3 = Sprintf filenamePattern [Name dsp, ''ljh3''] \<rparr> \<rparr>
                  else dp)
        in case start_all ds config filenamePattern (Suc i) rest of
             Panic \<Rightarrow> Panic
           | Return rest' \<Rightarrow> Return (dsp\<lparr> Publisher := dp \<rparr> # rest'))"

text \<open>
  \<open>WriteControl\<close> returns the error, the source as the call leaves it and the world.
  \<open>ds.SetWritingState\<close> is reached only on the paths that return \<open>nil\<close>.
\<close>

definition WriteControl ::
  "world \<Rightarrow> 'ts AnySource \<Rightarrow> WriteControlConfig
     \<Rightarrow> (error option \<times> 'ts AnySource \<times> world) outcome" where
  "WriteControl w ds config =
     (let request = ToUpper (Request config) in
      case WriteControl_checks w ds config of
        (Inl err, w1) \<Rightarrow> Return (Some err, ds, w1)
      | (Inr (filenamePattern, path, ws), w1) \<Rightarrow>
          if \<not> (HasPrefix request ''START'' \<or> HasPrefix request ''STOP''
                 \<or> HasPrefix request ''PAUSE'' \<or> HasPrefix request ''UNPAUSE'')
          then Return (Some (ErrRequestUnknown (Request config)), ds, w1)
          else if HasPrefix request ''PAUSE'' then
            Return (None,
                    ds\<lparr> processors := pause_all True (processors ds),
                        writingState := ws\<lparr> Paused := True \<rparr> \<rparr>, w1)
          else if HasPrefix request ''UNPAUSE'' then
            Return (None,
                    ds\<lparr> processors := pause_all False (processors ds),
                        writingState := ws\<lparr> Paused := False \<rparr> \<rparr>, w1)
          else if HasPrefix request ''STOP'' then
            (case stop_all w1 (processors ds) of
               Panic \<Rightarrow> Panic
             | Return (procs, w2) \<Rightarrow>
                 Return (None,
                         ds\<lparr> processors := procs,
                             writingState := ws
                               \<lparr> Active := False, Paused := False, FilenamePattern := [],
                                 ExperimentStateFilename := [],
                                 ExperimentStateLabel := [],
                                 ExperimentStateLabelUnixNano := 0 \<rparr> \<rparr>,
                         (case experimentStateFile ws of
                            Some fd \<Rightarrow> file_Close w2 fd
                          | None \<Rightarrow> w2)))
          else if HasPrefix request ''START'' then
            (case start_all ds config filenamePattern 0 (processors ds) of
               Panic \<Rightarrow> Panic
             | Return procs \<Rightarrow>
                 Return (None,
                         ds\<lparr> processors := procs,
                             writingState := ws
                               \<lparr> Active := True, Paused := False, BasePath := path,
                                 FilenamePattern := filenamePattern,
                                 ExperimentStateFilename :=
                                   Sprintf filenamePattern [''experiment_state'', ''txt''] \<rparr> \<rparr>,
                         w1))
          else Return (None, ds\<lparr> writingState := ws \<rparr>, w1))"

subsection \<open>AnySource.SetExperimentStateLabel (data_source.go, lines 62--70)\<close>

definition AnySource_SetExperimentStateLabel ::
  "world \<Rightarrow> 'ts AnySource \<Rightarrow> string \<Rightarrow> error option \<times> 'ts AnySource \<times> world" where
  "AnySource_SetExperimentStateLabel w ds stateLabel =
     (case SetExperimentStateLabel w (writingState ds) stateLabel of
        (Some err, ws, w1) \<Rightarrow> (Some err, ds, w1)
      | (None, ws, w1) \<Rightarrow> (None, ds\<lparr> writingState := ws \<rparr>, w1))"

section \<open>SourceControl.WriteControl (rpc_server.go, lines 325--335)\<close>

text \<open>
  The RPC method sets \<open>*reply\<close> and returns the error. \<open>activeSource\<close> is \<open>None\<close> when
  no source is active. \<open>broadcastWritingState\<close> publishes a status message and changes
  nothing here. The result is the reply, the error, the server and the world.
\<close>

record 'ts SourceControl =
  activeSource :: "'ts AnySource option"

definition SourceControl_WriteControl ::
  "world \<Rightarrow> 'ts SourceControl \<Rightarrow> WriteControlConfig
     \<Rightarrow> (bool \<times> error option \<times> 'ts SourceControl \<times> world) outcome" where
  "SourceControl_WriteControl w s config =
     (let reply = True in
      case activeSource s of
        None \<Rightarrow> Return (reply, None, s, w)
      | Some ds \<Rightarrow>
          (case WriteControl w ds config of
             Panic \<Rightarrow> Panic
           | Return (err, ds', w') \<Rightarrow>
               (let reply = (err \<noteq> None)
                in Return (reply, err, s\<lparr> activeSource := Some ds' \<rparr>, w'))))"

section \<open>A source and a world for evaluation\<close>

text \<open>
  A running source of two channels, neither with projectors; channel 0 is writing an
  LJH22 file. The TriggerState is instantiated by a natural number. The world's clock
  reads 1500000000.123456789 seconds after the epoch.
\<close>

definition world_ex :: world where
  "world_ex =
     \<lparr> now = 1500000000123456789, today = ''20170714'', dirs = [],
       mkdir_ok = (\<lambda>p. True), create_ok = (\<lambda>p. p \<noteq> []),
       disk = Map.empty, fd_path = (\<lambda>n. []), fd_closed = (\<lambda>n. False), next_fd = 0,
       closed_writers = [] \<rparr>"

definition publisher_idle :: DataPublisher where
  "publisher_idle = \<lparr> LJH22 = None, LJH3 = None, OFF = None, WritingPaused = False \<rparr>"

definition processor_ex :: "string \<Rightarrow> DataPublisher \<Rightarrow> nat DataStreamProcessor" where
  "processor_ex nm dp =
     \<lparr> Name = nm, NPresamples = 100, NSamples = 1000, Decimate = False, DecimateLevel = 1,
       TriggerState = 0, Publisher = dp, projectors = Dense 0 0 [], basis = Dense 0 0 [],
       modelDescription = [] \<rparr>"

definition writer_ex :: ljh_Writer where
  "writer_ex =
     \<lparr> ChanNum = 0, Presamples = 100, Samples = 1000, FramesPerSample = 1,
       NumberOfRows = 1, NumberOfColumns = 2, NumberOfChans = 2, RowNum = 0, ColNum = 0,
       FileName = ''/data/20170714/0000/20170714_run0000_chan0.ljh'',
       SourceName = ''SimPulses'', ChanName = ''chan0'', ChanNumber = 0 \<rparr>"

definition writingState_idle :: WritingState where
  "writingState_idle =
     \<lparr> Active = False, Paused = False, BasePath = [], FilenamePattern = [],
       experimentStateFile = None, ExperimentStateFilename = [],
       ExperimentStateLabel = [], ExperimentStateLabelUnixNano = 0 \<rparr>"

definition writingState_active :: WritingState where
  "writingState_active =
     \<lparr> Active = True, Paused = False, BasePath = ''/data'',
       FilenamePattern = ''/data/20170714/0000/20170714_run0000_%s.%s'',
       experimentStateFile = None,
       ExperimentStateFilename = ''/data/20170714/0000/20170714_run0000_experiment_state.txt'',
       ExperimentStateLabel = [], ExperimentStateLabelUnixNano = 0 \<rparr>"

definition source_idle :: "nat AnySource" where
  "source_idle =
     \<lparr> nchan = 2, name = ''SimPulses'', chanNames = [''chan0'', ''chan1''],
       chanNumbers = [0, 1], rowColCodes = [rcCode 0 0 1 2, rcCode 0 1 1 2],
       processors = [processor_ex ''chan0'' publisher_idle,
                     processor_ex ''chan1'' publisher_idle],
       writingState = writingState_idle \<rparr>"

definition source_writing :: "nat AnySource" where
  "source_writing =
     source_idle
       \<lparr> processors := [processor_ex ''chan0'' (publisher_idle\<lparr> LJH22 := Some writer_ex \<rparr>),
                        processor_ex ''chan1'' publisher_idle],
         writingState := writingState_active \<rparr>"

definition request_ex :: "string \<Rightarrow> WriteControlConfig" where
  "request_ex r =
     \<lparr> Request = r, Path = [], WriteLJH22 = False, WriteOFF = False, WriteLJH3 = False \<rparr>"

section \<open>Auxiliary facts\<close>

lemma low16_is_mask: "(0xffff :: 64 word) = mask 16"
  by (simp add: mask_eq_exp_minus_1)

lemma rc_row_rcCode: "rc_row (rcCode r c rs cs) = r AND 0xffff"
  unfolding rc_row_def rcCode_def Let_def low16_is_mask
  by (rule bit_word_eqI) (auto simp add: bit_simps)

lemma rc_col_rcCode: "rc_col (rcCode r c rs cs) = c AND 0xffff"
  unfolding rc_col_def rcCode_def Let_def low16_is_mask
  by (rule bit_word_eqI) (auto simp add: bit_simps)

lemma rc_rows_rcCode: "rc_rows (rcCode r c rs cs) = rs AND 0xffff"
  unfolding rc_rows_def rcCode_def Let_def low16_is_mask
  by (rule bit_word_eqI) (auto simp add: bit_simps)

lemma rc_cols_rcCode: "rc_cols (rcCode r c rs cs) = cs AND 0xffff"
  unfolding rc_cols_def rcCode_def Let_def low16_is_mask
  by (rule bit_word_eqI) (auto simp add: bit_simps)

lemma sint_low16: "sint ((w :: 64 word) AND 0xffff) = sint w mod 65536"
proof -
  have "sint (take_bit 16 w) = take_bit 16 (sint w)"
    by (simp add: signed_take_bit_eq)
  then show ?thesis
    by (simp add: low16_is_mask take_bit_eq_mask [symmetric] take_bit_eq_mod)
qed

lemma low16_id:
  fixes w :: "64 word"
  assumes "0 \<le> sint w" and "sint w < 65536"
  shows "w AND 0xffff = w"
proof -
  have "sint (w AND 0xffff) = sint w"
    using assms by (simp add: sint_low16)
  then have "(word_of_int (sint (w AND 0xffff)) :: 64 word) = word_of_int (sint w)"
    by simp
  then show ?thesis by simp
qed

lemma of_nat_nat_sint:
  fixes N :: "64 word"
  assumes "0 \<le> sint N"
  shows "of_nat (nat (sint N)) = N"
proof -
  have "(of_nat (nat (sint N)) :: 64 word) = word_of_int (int (nat (sint N)))"
    by (simp only: word_of_int_nat [symmetric] of_int_of_nat_eq)
  also have "\<dots> = word_of_int (sint N)"
    using assms by simp
  finally show ?thesis by simp
qed

lemma take_copy_tail_to_head:
  "n \<le> length xs \<Longrightarrow> take n (copy_tail_to_head n xs) = drop (length xs - n) xs"
  by (simp add: copy_tail_to_head_def)

lemma TrimKeepingN_noop:
  "int (length (rawData s)) \<le> sint N \<Longrightarrow> TrimKeepingN s N = Some (s, of_nat (length (rawData s)))"
  by (simp add: TrimKeepingN_def)

lemma TrimKeepingN_trim:
  assumes "0 \<le> sint N" and "sint N < int (length (rawData s))"
  shows "TrimKeepingN s N =
     Some (s\<lparr> rawData := drop (length (rawData s) - nat (sint N)) (rawData s),
              firstFramenum := firstFramenum s
                 + of_nat (length (rawData s) - nat (sint N)) * framesPerSample s,
              firstTime := time_Add (firstTime s)
                 (of_nat (length (rawData s) - nat (sint N)) * framesPerSample s * framePeriod s) \<rparr>, N)"
proof -
  let ?L = "length (rawData s)"
  let ?n = "nat (sint N)"
  have le: "?n \<le> ?L" using assms by linarith
  have d: "(of_nat ?L - N :: 64 word) = of_nat (?L - ?n)"
    using le of_nat_nat_sint [OF assms(1)] by (simp add: of_nat_diff)
  have c: "take ?n (copy_tail_to_head ?n (rawData s)) = drop (?L - ?n) (rawData s)"
    using le by (rule take_copy_tail_to_head)
  have nn: "\<not> int ?L \<le> sint N" "\<not> sint N < 0" using assms by auto
  show ?thesis
    unfolding TrimKeepingN_def Let_def d c using nn by simp
qed

lemma of_nat_split_diff:
  "n \<le> L \<Longrightarrow> (of_nat L :: 64 word) = of_nat (L - n) + of_nat n"
  by (simp flip: of_nat_add)

lemma frame_sum_preserved:
  fixes f p :: "64 word"
  assumes "n \<le> L"
  shows "f + of_nat (L - n) * p + of_nat n * p = f + of_nat L * p"
proof -
  have "(of_nat L :: 64 word) * p = (of_nat (L - n) + of_nat n) * p"
    using of_nat_split_diff [OF assms] by simp
  then show ?thesis by (simp add: distrib_right)
qed

lemma TrimKeepingN_trim_props:
  assumes "0 \<le> sint N" and lt: "sint N < int (length (rawData s))"
  shows "\<exists>s'. TrimKeepingN s N = Some (s', N)
               \<and> rawData s' = drop (length (rawData s) - nat (sint N)) (rawData s)
               \<and> length (rawData s') = nat (sint N)
               \<and> firstFramenum s' = firstFramenum s
                    + of_nat (length (rawData s) - length (rawData s')) * framesPerSample s
               \<and> frameOf s' (length (rawData s')) = frameOf s (length (rawData s))
               \<and> (framesPerSample s = 1 \<longrightarrow>
                    firstFramenum s' + of_nat (length (rawData s'))
                      = firstFramenum s + of_nat (length (rawData s)))
               \<and> framesPerSample s' = framesPerSample s
               \<and> framePeriod s' = framePeriod s
               \<and> samplesSeen s' = samplesSeen s"
proof -
  let ?L = "length (rawData s)"
  let ?n = "nat (sint N)"
  define s' where "s' = s\<lparr> rawData := drop (?L - ?n) (rawData s),
              firstFramenum := firstFramenum s + of_nat (?L - ?n) * framesPerSample s,
              firstTime := time_Add (firstTime s)
                 (of_nat (?L - ?n) * framesPerSample s * framePeriod s) \<rparr>"
  have le: "?n \<le> ?L" using assms by linarith
  have t: "TrimKeepingN s N = Some (s', N)"
    unfolding s'_def by (rule TrimKeepingN_trim [OF assms])
  have r: "rawData s' = drop (?L - ?n) (rawData s)" by (simp add: s'_def)
  have len: "length (rawData s') = ?n" using le by (simp add: r)
  have f: "firstFramenum s' = firstFramenum s + of_nat (?L - ?n) * framesPerSample s"
    by (simp add: s'_def)
  have p: "framesPerSample s' = framesPerSample s" by (simp add: s'_def)
  have q: "framePeriod s' = framePeriod s" by (simp add: s'_def)
  have ss: "samplesSeen s' = samplesSeen s" by (simp add: s'_def)
  have fs: "frameOf s' ?n = frameOf s ?L"
    unfolding frameOf_def f p by (rule frame_sum_preserved [OF le])
  have one: "framesPerSample s = 1 \<longrightarrow>
      firstFramenum s' + of_nat ?n = firstFramenum s + of_nat ?L"
  proof
    assume "framesPerSample s = 1"
    then show "firstFramenum s' + of_nat ?n = firstFramenum s + of_nat ?L"
      using frame_sum_preserved [OF le, of "firstFramenum s" 1] by (simp only: f mult_1_right)
  qed
  show ?thesis
    apply (rule exI [of _ s'])
    unfolding len
    using t r f p q ss fs one by blast
qed

lemma trim_fps2_eval: "TrimKeepingN trim_stream_fps2 1 =
   Some (trim_stream_fps2\<lparr> rawData := [30], firstFramenum := 104, firstTime := 4000 \<rparr>, 1)"
  by (simp add: TrimKeepingN_def trim_stream_fps2_def copy_tail_to_head_def time_Add_def)

lemma length_le_bytes: "length (le_bytes n w) = n"
  by (induction n arbitrary: w) simp_all

lemma le_word_le_bytes:
  "(le_word (le_bytes n w) :: 'a::len word) = take_bit (8 * n) (w :: 'a word)"
proof (induction n arbitrary: w)
  case 0
  show ?case by simp
next
  case (Suc n)
  show ?case
    apply (simp add: Suc)
    apply (rule bit_word_eqI)
    apply (auto simp add: bit_simps)
    done
qed

lemma le_word_bytes2: "le_word (le_bytes 2 w) = (w :: 16 word)"
  by (simp add: le_word_le_bytes take_bit_word_eq_self)

lemma le_word_bytes4: "le_word (le_bytes 4 w) = (w :: 32 word)"
  by (simp add: le_word_le_bytes take_bit_word_eq_self)

lemma le_word_bytes8: "le_word (le_bytes 8 w) = (w :: 64 word)"
  by (simp add: le_word_le_bytes take_bit_word_eq_self)

lemma chunk_at:
  "length pre = k \<Longrightarrow> length c = n \<Longrightarrow> take n (drop k (pre @ c @ post)) = c"
  by simp

lemma chunk_of_concat:
  "i < length xs \<Longrightarrow>
   take 8 (drop (8 * i) (concat (map (le_bytes 8) xs))) = le_bytes 8 (xs ! i)"
proof (induction xs arbitrary: i)
  case Nil
  then show ?case by simp
next
  case (Cons x xs)
  show ?case
  proof (cases i)
    case 0
    then show ?thesis by (simp add: length_le_bytes)
  next
    case (Suc j)
    then have "j < length xs" using Cons.prems by simp
    then have "take 8 (drop (8 * j) (concat (map (le_bytes 8) xs))) = le_bytes 8 (xs ! j)"
      by (rule Cons.IH)
    moreover have "drop (8 * i) (concat (map (le_bytes 8) (x # xs)))
        = drop (8 * j) (concat (map (le_bytes 8) xs))"
      using Suc by (simp add: length_le_bytes)
    ultimately show ?thesis using Suc by simp
  qed
qed

lemma length_FromSliceFloat64: "length (FromSliceFloat64 xs) = 8 * length xs"
  by (induction xs) (simp_all add: FromSliceFloat64_def length_le_bytes)

lemma messageSummaries_chunks:
  "messageSummaries narrow rec =
     [le_bytes 2 (ucast (channum rec) :: 16 word)
      @ le_bytes 1 (0 :: 8 word)
      @ le_bytes 4 (ucast (presamples rec) :: 32 word)
      @ le_bytes 4 (of_nat (length (data rec)) :: 32 word)
      @ le_bytes 4 (narrow (pretrigMean rec))
      @ le_bytes 4 (narrow (peakValue rec))
      @ le_bytes 4 (narrow (pulseRMS rec))
      @ le_bytes 4 (narrow (pulseAverage rec))
      @ le_bytes 4 (narrow (residualStdDev rec))
      @ le_bytes 8 (UnixNano (trigTime rec))
      @ le_bytes 8 (trigFrame rec),
      FromSliceFloat64 (modelCoefs rec)]"
  unfolding messageSummaries_def Let_def FromUint16_def FromUint8_def FromUint32_def
    FromFloat32_def FromInt64_def
  by (simp only: append_Nil append_assoc)

lemma header_fields:
  fixes c0 :: "16 word" and c1 :: "8 word" and c2 c3 c4 c5 c6 c7 c8 :: "32 word"
    and c9 c10 :: "64 word"
  assumes h_def: "h = le_bytes 2 c0 @ le_bytes 1 c1 @ le_bytes 4 c2 @ le_bytes 4 c3 @ le_bytes 4 c4
      @ le_bytes 4 c5 @ le_bytes 4 c6 @ le_bytes 4 c7 @ le_bytes 4 c8 @ le_bytes 8 c9
      @ le_bytes 8 c10"
  shows "length h = 47"
    and "le_word (take 2 h) = c0"
    and "h ! 2 = c1"
    and "le_word (take 4 (drop 3 h)) = c2"
    and "le_word (take 4 (drop 7 h)) = c3"
    and "le_word (take 4 (drop 11 h)) = c4"
    and "le_word (take 4 (drop 15 h)) = c5"
    and "le_word (take 4 (drop 19 h)) = c6"
    and "le_word (take 4 (drop 23 h)) = c7"
    and "le_word (take 4 (drop 27 h)) = c8"
    and "le_word (take 8 (drop 31 h)) = c9"
    and "le_word (take 8 (drop 39 h)) = c10"
proof -
  show "length h = 47" by (simp add: h_def length_le_bytes)
  show "le_word (take 2 h) = c0"
    by (simp add: h_def length_le_bytes le_word_bytes2)
  show "h ! 2 = c1"
    by (simp add: h_def nth_append length_le_bytes)
  show "le_word (take 4 (drop 3 h)) = c2"
    by (simp add: h_def length_le_bytes le_word_bytes4)
  show "le_word (take 4 (drop 7 h)) = c3"
    by (simp add: h_def length_le_bytes le_word_bytes4)
  show "le_word (take 4 (drop 11 h)) = c4"
    by (simp add: h_def length_le_bytes le_word_bytes4)
  show "le_word (take 4 (drop 15 h)) = c5"
    by (simp add: h_def length_le_bytes le_word_bytes4)
  show "le_word (take 4 (drop 19 h)) = c6"
    by (simp add: h_def length_le_bytes le_word_bytes4)
  show "le_word (take 4 (drop 23 h)) = c7"
    by (simp add: h_def length_le_bytes le_word_bytes4)
  show "le_word (take 4 (drop 27 h)) = c8"
    by (simp add: h_def length_le_bytes le_word_bytes4)
  show "le_word (take 8 (drop 31 h)) = c9"
    by (simp add: h_def length_le_bytes le_word_bytes8)
  show "le_word (take 8 (drop 39 h)) = c10"
    by (simp add: h_def length_le_bytes le_word_bytes8)
qed

lemma check_not_writing_Some:
  "\<exists>dsp \<in> set procs. HasLJH22 (Publisher dsp) \<or> HasOFF (Publisher dsp) \<or> HasLJH3 (Publisher dsp)
   \<Longrightarrow> \<exists>e. check_not_writing procs = Some e"
  by (induction procs) auto

lemma anyProjectorsSet_iff:
  "anyProjectorsSet procs
     = (\<exists>dsp \<in> set procs. \<not> IsZero (projectors dsp) \<and> \<not> IsZero (basis dsp))"
  by (induction procs) auto

lemma WriteControl_checks_error:
  "WriteControl_checks w ds config = (Inl err, w1)
   \<Longrightarrow> WriteControl w ds config = Return (Some err, ds, w1)"
  by (simp add: WriteControl_def)

lemma START_checks_fail:
  assumes start: "HasPrefix (ToUpper (Request config)) ''START''"
    and bad: "(\<not> WriteLJH22 config \<and> \<not> WriteLJH3 config \<and> \<not> WriteOFF config)
        \<or> (\<exists>dsp \<in> set (processors ds).
              HasLJH22 (Publisher dsp) \<or> HasOFF (Publisher dsp) \<or> HasLJH3 (Publisher dsp))
        \<or> (WriteOFF config \<and> \<not> (\<exists>dsp \<in> set (processors ds).
              \<not> IsZero (projectors dsp) \<and> \<not> IsZero (basis dsp)))"
  shows "\<exists>err w1. WriteControl_checks w ds config = (Inl err, w1)"
proof (cases "\<not> (WriteLJH22 config \<or> WriteOFF config \<or> WriteLJH3 config)")
  case True
  then show ?thesis using start by (simp add: WriteControl_checks_def)
next
  case flags: False
  show ?thesis
  proof (cases "check_not_writing (processors ds)")
    case (Some e)
    then show ?thesis using start flags by (simp add: WriteControl_checks_def)
  next
    case None
    with bad flags check_not_writing_Some [of "processors ds"]
    have off: "WriteOFF config" and nop: "\<not> anyProjectorsSet (processors ds)"
      by (auto simp add: anyProjectorsSet_iff)
    define path where "path = (if length (Path config) > 0 then Path config
                            else BasePath (writingState ds))"
    obtain r w1 where m: "makeDirectory w path = (r, w1)" by (cases "makeDirectory w path")
    show ?thesis
    proof (cases r)
      case (Inl e)
      then show ?thesis using start flags None m
        by (simp add: WriteControl_checks_def path_def)
    next
      case (Inr pat)
      then show ?thesis using start flags None m off nop
        by (simp add: WriteControl_checks_def path_def)
    qed
  qed
qed

lemma HasPrefix_start_lower: "HasPrefix (ToUpper (Request (request_ex ''start''))) ''START''"
  by (simp add: request_ex_def ToUpper_def upper_char_def HasPrefix_def)

lemma HasPrefix_START_upper:
  "HasPrefix (ToUpper (Request ((request_ex ''START'')\<lparr> WriteLJH22 := a, WriteOFF := b \<rparr>))) ''START''"
  by (simp add: request_ex_def ToUpper_def upper_char_def HasPrefix_def)

lemma show_nat_step: "10 \<le> n \<Longrightarrow> show_nat n = show_nat (n div 10) @ [digit_char n]"
  by (subst show_nat.simps) simp

lemma show_nat_digit: "n < 10 \<Longrightarrow> show_nat n = [digit_char n]"
  by (subst show_nat.simps) simp

lemma show_nat_example: "show_nat 123456789 = ''123456789''"
  by (simp add: show_nat_step show_nat_digit digit_char_def)

lemma SetExperimentStateLabel_example:
  "SetExperimentStateLabel world_ex writingState_active ''run1'' =
     (None,
      writingState_active
        \<lparr> experimentStateFile := Some 0, ExperimentStateLabel := ''run1'',
          ExperimentStateLabelUnixNano := 123456789 \<rparr>,
      world_ex
        \<lparr> disk := [ExperimentStateFilename writingState_active \<mapsto>
              ''# unix time in nanoseconds, state label'' @ ''123456789, run1'' @ [CHR 0x0A]],
          fd_path := (fd_path world_ex)(0 := ExperimentStateFilename writingState_active),
          fd_closed := (fd_closed world_ex)(0 := False),
          next_fd := 1 \<rparr>)"
  by (simp add: SetExperimentStateLabel_def os_Create_def file_WriteString_def
      world_ex_def writingState_active_def Nanosecond_def show_int_def show_nat_example)

lemma HasPrefix_PAUSE:
  "\<not> HasPrefix (ToUpper ''PAUSE'') ''START''" "\<not> HasPrefix (ToUpper ''PAUSE'') ''UNPAUSE''"
  "HasPrefix (ToUpper ''PAUSE'') ''PAUSE''"
  by (simp_all add: ToUpper_def upper_char_def HasPrefix_def)

lemma HasPrefix_STOP:
  "\<not> HasPrefix (ToUpper ''STOP'') ''START''" "\<not> HasPrefix (ToUpper ''STOP'') ''UNPAUSE''"
  "\<not> HasPrefix (ToUpper ''STOP'') ''PAUSE''" "HasPrefix (ToUpper ''STOP'') ''STOP''"
  by (simp_all add: ToUpper_def upper_char_def HasPrefix_def)

lemma WriteControl_PAUSE_example:
  "WriteControl world_ex source_writing (request_ex ''PAUSE'') =
     Return (None,
             source_writing
               \<lparr> processors := pause_all True (processors source_writing),
                 writingState := (writingState source_writing)\<lparr> Paused := True \<rparr> \<rparr>,
             world_ex)"
  by (simp add: WriteControl_def WriteControl_checks_def request_ex_def HasPrefix_PAUSE)

lemma stop_all_missing_OFF:
  "\<exists>dsp \<in> set procs. OFF (Publisher dsp) = None \<Longrightarrow> stop_all w procs = Panic"
proof (induction procs arbitrary: w)
  case Nil
  then show ?case by simp
next
  case (Cons dsp rest)
  show ?case
  proof (cases "OFF (Publisher dsp)")
    case None
    then show ?thesis
      by (simp add: RemoveLJH22_def RemoveOFF_def split: option.splits)
  next
    case (Some wr)
    with Cons.prems have "\<exists>d \<in> set rest. OFF (Publisher d) = None" by auto
    then have "\<And>w'. stop_all w' rest = Panic" by (rule Cons.IH)
    then show ?thesis
      by (simp add: RemoveLJH22_def RemoveOFF_def RemoveLJH3_def split: option.splits)
  qed
qed

lemma HasPrefix_iff: "HasPrefix s p \<longleftrightarrow> (\<exists>r. s = p @ r)"
proof
  assume "HasPrefix s p"
  then have "s = p @ drop (length p) s"
    unfolding HasPrefix_def by (metis append_take_drop_id)
  then show "\<exists>r. s = p @ r" ..
next
  assume "\<exists>r. s = p @ r"
  then show "HasPrefix s p" by (auto simp add: HasPrefix_def)
qed

lemma HasPrefix_STOP_only:
  assumes "HasPrefix s ''STOP''"
  shows "\<not> HasPrefix s ''START''" and "\<not> HasPrefix s ''PAUSE''" and "\<not> HasPrefix s ''UNPAUSE''"
  using assms by (auto simp add: HasPrefix_iff)

lemma stop_all_with_OFF:
  "\<forall>dsp \<in> set procs. OFF (Publisher dsp) \<noteq> None \<Longrightarrow>
   \<exists>procs' w'. stop_all w procs = Return (procs', w')
      \<and> length procs' = length procs
      \<and> (\<forall>dsp \<in> set procs'. LJH22 (Publisher dsp) = None \<and> LJH3 (Publisher dsp) = None
                                 \<and> OFF (Publisher dsp) = None)
      \<and> fd_closed w' = fd_closed w"
proof (induction procs arbitrary: w)
  case Nil
  show ?case by simp
next
  case (Cons dsp rest)
  from Cons.prems obtain wr where o: "OFF (Publisher dsp) = Some wr" by auto
  obtain dp1 w1 where r1: "RemoveLJH22 w (Publisher dsp) = Return (dp1, w1)"
    and o1: "OFF dp1 = Some wr" and l1: "LJH22 dp1 = None" and f1: "fd_closed w1 = fd_closed w"
    using o by (cases "LJH22 (Publisher dsp)") (auto simp add: RemoveLJH22_def writer_Close_def)
  obtain dp2 w2 where r2: "RemoveOFF w1 dp1 = Return (dp2, w2)"
    and o2: "OFF dp2 = None" and l2: "LJH22 dp2 = None" and f2: "fd_closed w2 = fd_closed w"
    using o1 l1 f1 by (auto simp add: RemoveOFF_def writer_Close_def)
  obtain dp3 w3 where r3: "RemoveLJH3 w2 dp2 = Return (dp3, w3)"
    and o3: "OFF dp3 = None" and l3: "LJH22 dp3 = None" and t3: "LJH3 dp3 = None"
    and f3: "fd_closed w3 = fd_closed w"
    using o2 l2 f2 by (cases "LJH3 dp2") (auto simp add: RemoveLJH3_def writer_Close_def)
  from Cons.prems have "\<forall>d \<in> set rest. OFF (Publisher d) \<noteq> None" by simp
  from Cons.IH [OF this, of w3]
  obtain rest' w4 where r4: "stop_all w3 rest = Return (rest', w4)"
    and len: "length rest' = length rest"
    and cl: "\<forall>d \<in> set rest'. LJH22 (Publisher d) = None \<and> LJH3 (Publisher d) = None
                                 \<and> OFF (Publisher d) = None"
    and f4: "fd_closed w4 = fd_closed w3" by blast
  have "stop_all w (dsp # rest) = Return (dsp\<lparr> Publisher := dp3 \<rparr> # rest', w4)"
    by (simp add: r1 r2 r3 r4)
  then show ?case using len cl f3 f4 o3 l3 t3 by simp
qed

lemma WriteControl_STOP_with_OFF_everywhere:
  assumes stop: "HasPrefix (ToUpper (Request config)) ''STOP''"
    and off: "\<forall>dsp \<in> set (processors ds). OFF (Publisher dsp) \<noteq> None"
  shows "\<exists>ds' w'. WriteControl w ds config = Return (None, ds', w')
      \<and> \<not> Active (writingState ds') \<and> \<not> Paused (writingState ds')
      \<and> FilenamePattern (writingState ds') = []
      \<and> ExperimentStateFilename (writingState ds') = []
      \<and> ExperimentStateLabel (writingState ds') = []
      \<and> (\<forall>dsp \<in> set (processors ds'). LJH22 (Publisher dsp) = None
             \<and> LJH3 (Publisher dsp) = None \<and> OFF (Publisher dsp) = None)
      \<and> (\<forall>fd. experimentStateFile (writingState ds) = Some fd \<longrightarrow> fd_closed w' fd)"
proof -
  note ex = HasPrefix_STOP_only [OF stop]
  have chk: "WriteControl_checks w ds config = (Inr ([], [], writingState ds), w)"
    using ex by (simp add: WriteControl_checks_def)
  from stop_all_with_OFF [OF off, of w]
  obtain procs' w' where s: "stop_all w (processors ds) = Return (procs', w')"
    and cl: "\<forall>dsp \<in> set procs'. LJH22 (Publisher dsp) = None \<and> LJH3 (Publisher dsp) = None
                                 \<and> OFF (Publisher dsp) = None"
    by blast
  show ?thesis
    using ex stop cl
    by (cases "experimentStateFile (writingState ds)")
       (simp_all add: WriteControl_def chk s file_Close_def)
qed

lemma SourceControl_WriteControl_reply:
  "SourceControl_WriteControl w \<lparr> activeSource = Some ds \<rparr> config = Return (reply, err, s', w')
   \<Longrightarrow> reply = (err \<noteq> None)"
  by (auto simp add: SourceControl_WriteControl_def split: outcome.splits)

lemma check_indices_too_large:
  "\<exists>c \<in> set cs. sint n \<le> sint c \<Longrightarrow> \<exists>e. check_indices n cs = Some e"
  by (induction cs) auto

lemma ChangeTriggerState_index_too_large:
  assumes "\<exists>c \<in> set (ChannelIndicies state). sint (nchan ds) \<le> sint c"
  shows "\<exists>e. ChangeTriggerState ds state = Return (Some e, ds)"
proof -
  from check_indices_too_large [OF assms]
  obtain e where "check_indices (nchan ds) (ChannelIndicies state) = Some e" ..
  then show ?thesis by (simp add: ChangeTriggerState_def)
qed

section \<open>RowColCode round trip\<close>

text \<open>
  Claim C10. For all integers row, col, rows, cols, the code
  \<open>c = rcCode(row, col, rows, cols)\<close> gives back each field modulo \<open>2^16\<close>:
  \<open>c.row() = row mod 2^16\<close> and likewise for col, rows and cols; and when a field lies in
  \<open>[0, 65536)\<close> it is given back exactly.
\<close>

theorem rcCode_roundtrip:
  "sint (rc_row (rcCode row col rows cols)) = sint row mod 65536
   \<and> sint (rc_col (rcCode row col rows cols)) = sint col mod 65536
   \<and> sint (rc_rows (rcCode row col rows cols)) = sint rows mod 65536
   \<and> sint (rc_cols (rcCode row col rows cols)) = sint cols mod 65536
   \<and> (0 \<le> sint row \<and> sint row < 65536 \<longrightarrow> rc_row (rcCode row col rows cols) = row)
   \<and> (0 \<le> sint col \<and> sint col < 65536 \<longrightarrow> rc_col (rcCode row col rows cols) = col)
   \<and> (0 \<le> sint rows \<and> sint rows < 65536 \<longrightarrow> rc_rows (rcCode row col rows cols) = rows)
   \<and> (0 \<le> sint cols \<and> sint cols < 65536 \<longrightarrow> rc_cols (rcCode row col rows cols) = cols)"
  by (simp add: rc_row_rcCode rc_col_rcCode rc_rows_rcCode rc_cols_rcCode
      sint_low16 low16_id)

theorem rcCode_roundtrip_witness:
  "(0 \<le> sint (7 :: go_int) \<and> sint (7 :: go_int) < 65536)
   \<and> (0 \<le> sint (3 :: go_int) \<and> sint (3 :: go_int) < 65536)
   \<and> (0 \<le> sint (40 :: go_int) \<and> sint (40 :: go_int) < 65536)
   \<and> (0 \<le> sint (65535 :: go_int) \<and> sint (65535 :: go_int) < 65536)
   \<and> rc_row (rcCode 7 3 40 65535) = 7
   \<and> rc_col (rcCode 7 3 40 65535) = 3
   \<and> rc_rows (rcCode 7 3 40 65535) = 40
   \<and> rc_cols (rcCode 7 3 40 65535) = 65535
   \<and> sint (rc_cols (rcCode 7 3 40 65535)) = sint (65535 :: go_int) mod 65536"
  using rcCode_roundtrip [of 7 3 40 65535] by simp

section \<open>Trimming a stream\<close>

text \<open>
  Claim C4, as the source has it. For every DataStream and every \<open>N \<ge> 0\<close>,
  \<open>TrimKeepingN(N)\<close> is a no-op returning the length when \<open>len(rawData) \<le> N\<close>; otherwise
  it returns \<open>N\<close>, retains exactly the trailing \<open>N\<close> samples and advances
  \<open>firstFramenum\<close> by the number of discarded samples times \<open>framesPerSample\<close>, so that
  the frame index one past the last sample, \<open>firstFramenum + len(rawData) * framesPerSample\<close>,
  is unchanged (which is \<open>firstFramenum + len(rawData)\<close> when \<open>framesPerSample = 1\<close>);
  \<open>framesPerSample\<close>, \<open>framePeriod\<close> and \<open>samplesSeen\<close> are untouched.
\<close>

theorem TrimKeepingN_frames:
  assumes "0 \<le> sint N"
  shows "(int (length (rawData s)) \<le> sint N \<longrightarrow>
            TrimKeepingN s N = Some (s, of_nat (length (rawData s))))
       \<and> (sint N < int (length (rawData s)) \<longrightarrow>
            (\<exists>s'. TrimKeepingN s N = Some (s', N)
               \<and> rawData s' = drop (length (rawData s) - nat (sint N)) (rawData s)
               \<and> length (rawData s') = nat (sint N)
               \<and> firstFramenum s' = firstFramenum s
                    + of_nat (length (rawData s) - length (rawData s')) * framesPerSample s
               \<and> frameOf s' (length (rawData s')) = frameOf s (length (rawData s))
               \<and> (framesPerSample s = 1 \<longrightarrow>
                    firstFramenum s' + of_nat (length (rawData s'))
                      = firstFramenum s + of_nat (length (rawData s)))
               \<and> framesPerSample s' = framesPerSample s
               \<and> framePeriod s' = framePeriod s
               \<and> samplesSeen s' = samplesSeen s))"
  using TrimKeepingN_noop [of s N] TrimKeepingN_trim_props [OF assms, of s] by blast

theorem TrimKeepingN_frames_witness:
  "0 \<le> sint (1 :: go_int) \<and> sint (1 :: go_int) < int (length (rawData trim_stream_fps2))
   \<and> (\<exists>s'. TrimKeepingN trim_stream_fps2 1 = Some (s', 1)
          \<and> rawData s' = drop (length (rawData trim_stream_fps2) - nat (sint (1 :: go_int)))
                            (rawData trim_stream_fps2)
          \<and> frameOf s' (length (rawData s'))
               = frameOf trim_stream_fps2 (length (rawData trim_stream_fps2)))
   \<and> 0 \<le> sint (5 :: go_int) \<and> int (length (rawData trim_stream_fps2)) \<le> sint (5 :: go_int)
   \<and> TrimKeepingN trim_stream_fps2 5
        = Some (trim_stream_fps2, of_nat (length (rawData trim_stream_fps2)))"
proof -
  have h1: "0 \<le> sint (1 :: go_int)" and h5: "0 \<le> sint (5 :: go_int)" by simp_all
  have lt: "sint (1 :: go_int) < int (length (rawData trim_stream_fps2))"
    by (simp add: trim_stream_fps2_def)
  have ge: "int (length (rawData trim_stream_fps2)) \<le> sint (5 :: go_int)"
    by (simp add: trim_stream_fps2_def)
  show ?thesis
    using h1 h5 lt ge TrimKeepingN_frames [OF h1, of trim_stream_fps2]
      TrimKeepingN_frames [OF h5, of trim_stream_fps2]
    by blast
qed

text \<open>
  The quantity \<open>firstFramenum + len(rawData)\<close> itself is not preserved once
  \<open>framesPerSample\<close> exceeds 1: a stream of three samples at two frames per sample,
  starting at frame 100 and trimmed to one sample, moves from \<open>100 + 3\<close> to \<open>104 + 1\<close>.
\<close>

theorem TrimKeepingN_sum_counterexample:
  "1 \<le> sint (framesPerSample trim_stream_fps2) \<and> 0 \<le> sint (1 :: go_int)
   \<and> sint (1 :: go_int) < int (length (rawData trim_stream_fps2))
   \<and> TrimKeepingN trim_stream_fps2 1 =
       Some (trim_stream_fps2\<lparr> rawData := [30], firstFramenum := 104, firstTime := 4000 \<rparr>, 1)
   \<and> firstFramenum (fst (the (TrimKeepingN trim_stream_fps2 1)))
        + of_nat (length (rawData (fst (the (TrimKeepingN trim_stream_fps2 1))))) = 105
   \<and> firstFramenum trim_stream_fps2 + of_nat (length (rawData trim_stream_fps2)) = 103
   \<and> firstFramenum (fst (the (TrimKeepingN trim_stream_fps2 1)))
        + of_nat (length (rawData (fst (the (TrimKeepingN trim_stream_fps2 1)))))
      \<noteq> firstFramenum trim_stream_fps2 + of_nat (length (rawData trim_stream_fps2))"
  unfolding trim_fps2_eval by (simp add: trim_stream_fps2_def)

text \<open>
  Claim C9. For every DataStream and every \<open>N \<ge> 0\<close>, applying \<open>TrimKeepingN(N)\<close> twice
  yields the same stream (all fields) and the same returned length as applying it once.
\<close>

theorem TrimKeepingN_idempotent:
  assumes "0 \<le> sint N"
  shows "\<exists>s' r. TrimKeepingN s N = Some (s', r) \<and> TrimKeepingN s' N = Some (s', r)"
proof (cases "int (length (rawData s)) \<le> sint N")
  case True
  then show ?thesis by (simp add: TrimKeepingN_noop)
next
  case False
  then have lt: "sint N < int (length (rawData s))" by simp
  from TrimKeepingN_trim_props [OF assms lt]
  obtain s' where t: "TrimKeepingN s N = Some (s', N)"
    and len: "length (rawData s') = nat (sint N)" by blast
  have "int (length (rawData s')) \<le> sint N" using assms len by simp
  then have "TrimKeepingN s' N = Some (s', of_nat (length (rawData s')))"
    by (rule TrimKeepingN_noop)
  then have "TrimKeepingN s' N = Some (s', N)"
    by (simp only: len of_nat_nat_sint [OF assms])
  with t show ?thesis by blast
qed

theorem TrimKeepingN_idempotent_witness:
  "0 \<le> sint (1 :: go_int)
   \<and> (\<exists>s' r. TrimKeepingN trim_stream_fps2 1 = Some (s', r)
         \<and> TrimKeepingN s' 1 = Some (s', r))"
  using TrimKeepingN_idempotent [of 1 trim_stream_fps2] by simp

section \<open>Appending a segment\<close>

text \<open>
  Claim C8. For every DataStream and DataSegment, \<open>AppendSegment\<close> concatenates the
  segment's samples onto the stream's data, increments \<open>samplesSeen\<close> by the segment
  length and sets \<open>firstFramenum = segment.firstFramenum - len(previous) * framesPerSample\<close>
  (the segment's \<open>framesPerSample\<close>, which the stream adopts). Every appended sample then
  has in the stream the frame index it has in the segment; in particular the final sample
  of the stream after appending a non-empty segment keeps the frame index the segment
  declared for it.
\<close>

theorem AppendSegment_frames:
  "rawData (AppendSegment stream segment) = rawData stream @ rawData segment
   \<and> samplesSeen (AppendSegment stream segment)
        = samplesSeen stream + of_nat (length (rawData segment))
   \<and> framesPerSample (AppendSegment stream segment) = framesPerSample segment
   \<and> firstFramenum (AppendSegment stream segment)
        = firstFramenum segment - of_nat (length (rawData stream)) * framesPerSample segment
   \<and> (\<forall>i. frameOf (AppendSegment stream segment) (length (rawData stream) + i)
            = frameOf segment i)
   \<and> (rawData segment \<noteq> [] \<longrightarrow>
        frameOf (AppendSegment stream segment)
            (length (rawData (AppendSegment stream segment)) - 1)
          = frameOf segment (length (rawData segment) - 1))"
proof -
  have a: "rawData (AppendSegment stream segment) = rawData stream @ rawData segment"
    by (simp add: AppendSegment_def Let_def)
  have b: "samplesSeen (AppendSegment stream segment)
        = samplesSeen stream + of_nat (length (rawData segment))"
    by (simp add: AppendSegment_def Let_def)
  have c: "framesPerSample (AppendSegment stream segment) = framesPerSample segment"
    by (simp add: AppendSegment_def Let_def)
  have d: "firstFramenum (AppendSegment stream segment)
        = firstFramenum segment - of_nat (length (rawData stream)) * framesPerSample segment"
    by (simp add: AppendSegment_def Let_def)
  have e: "frameOf (AppendSegment stream segment) (length (rawData stream) + i)
            = frameOf segment i" for i
    unfolding frameOf_def c d by (simp add: distrib_right)
  have f: "frameOf (AppendSegment stream segment)
            (length (rawData (AppendSegment stream segment)) - 1)
          = frameOf segment (length (rawData segment) - 1)" if "rawData segment \<noteq> []"
  proof -
    have "0 < length (rawData segment)" using that by simp
    then have "length (rawData (AppendSegment stream segment)) - 1
        = length (rawData stream) + (length (rawData segment) - 1)"
      unfolding a length_append by linarith
    then show ?thesis by (simp only: e)
  qed
  show ?thesis using a b c d e f by blast
qed

theorem AppendSegment_frames_witness:
  "rawData append_segment_ex \<noteq> []
   \<and> rawData (AppendSegment append_stream_ex append_segment_ex) = [1, 2, 7, 8, 9]
   \<and> firstFramenum (AppendSegment append_stream_ex append_segment_ex) = 992
   \<and> frameOf (AppendSegment append_stream_ex append_segment_ex)
        (length (rawData (AppendSegment append_stream_ex append_segment_ex)) - 1) = 1008
   \<and> frameOf append_segment_ex (length (rawData append_segment_ex) - 1) = 1008"
  using AppendSegment_frames [of append_stream_ex append_segment_ex]
  by (simp add: append_stream_ex_def append_segment_ex_def frameOf_def)

section \<open>The summary message\<close>

text \<open>
  Claim C2, as the source has it. For every DataRecord, \<open>messageSummaries\<close> returns a
  two-frame message. The first frame is exactly 47 bytes
  (\<open>2 + 1 + 4 + 4 + 5 * 4 + 8 + 8\<close>), laid out little-endian as u16 channel at offset 0,
  u8 version = 0 at offset 2, u32 presamples at 3, u32 record length at 7, f32 pretrigMean
  at 11, f32 peakValue at 15, f32 pulseRMS at 19, f32 pulseAverage at 23, f32
  residualStdDev at 27, i64 trigger time in nanoseconds at 31 and i64 trigFrame at 39.
  The second frame is the record's modelCoefs as a little-endian float64 array, 8 bytes
  each, possibly empty.
\<close>

theorem messageSummaries_layout:
  "\<exists>header body.
      messageSummaries narrow rec = [header, body]
    \<and> length header = 47
    \<and> le_word (take 2 header) = (ucast (channum rec) :: 16 word)
    \<and> header ! 2 = 0
    \<and> le_word (take 4 (drop 3 header)) = (ucast (presamples rec) :: 32 word)
    \<and> le_word (take 4 (drop 7 header)) = (of_nat (length (data rec)) :: 32 word)
    \<and> le_word (take 4 (drop 11 header)) = narrow (pretrigMean rec)
    \<and> le_word (take 4 (drop 15 header)) = narrow (peakValue rec)
    \<and> le_word (take 4 (drop 19 header)) = narrow (pulseRMS rec)
    \<and> le_word (take 4 (drop 23 header)) = narrow (pulseAverage rec)
    \<and> le_word (take 4 (drop 27 header)) = narrow (residualStdDev rec)
    \<and> le_word (take 8 (drop 31 header)) = UnixNano (trigTime rec)
    \<and> le_word (take 8 (drop 39 header)) = trigFrame rec
    \<and> length body = 8 * length (modelCoefs rec)
    \<and> (\<forall>i < length (modelCoefs rec).
          le_word (take 8 (drop (8 * i) body)) = modelCoefs rec ! i)"
proof -
  define header where "header =
      le_bytes 2 (ucast (channum rec) :: 16 word)
      @ le_bytes 1 (0 :: 8 word)
      @ le_bytes 4 (ucast (presamples rec) :: 32 word)
      @ le_bytes 4 (of_nat (length (data rec)) :: 32 word)
      @ le_bytes 4 (narrow (pretrigMean rec))
      @ le_bytes 4 (narrow (peakValue rec))
      @ le_bytes 4 (narrow (pulseRMS rec))
      @ le_bytes 4 (narrow (pulseAverage rec))
      @ le_bytes 4 (narrow (residualStdDev rec))
      @ le_bytes 8 (UnixNano (trigTime rec))
      @ le_bytes 8 (trigFrame rec)"
  define body where "body = FromSliceFloat64 (modelCoefs rec)"
  note f = header_fields [OF header_def]
  have m: "messageSummaries narrow rec = [header, body]"
    unfolding header_def body_def by (rule messageSummaries_chunks)
  have l: "length body = 8 * length (modelCoefs rec)"
    unfolding body_def by (rule length_FromSliceFloat64)
  have b: "\<forall>i < length (modelCoefs rec).
      le_word (take 8 (drop (8 * i) body)) = modelCoefs rec ! i"
    unfolding body_def FromSliceFloat64_def
    by (simp add: chunk_of_concat le_word_bytes8)
  show ?thesis
    using m f l b by blast
qed

theorem messageSummaries_layout_witness:
  "(1 :: nat) < length (modelCoefs summary_record_ex)
   \<and> (\<exists>header body.
        messageSummaries narrow_ex summary_record_ex = [header, body]
      \<and> length header = 47
      \<and> le_word (take 2 header) = (5 :: 16 word)
      \<and> le_word (take 8 (drop 39 header)) = (0x0102030405060708 :: 64 word)
      \<and> length body = 16
      \<and> le_word (take 8 (drop (8 * 1) body)) = (0x4000000000000000 :: 64 word))"
proof -
  have h: "(1 :: nat) < length (modelCoefs summary_record_ex)"
    by (simp add: summary_record_ex_def)
  from messageSummaries_layout [of narrow_ex summary_record_ex]
  obtain header body where
    m: "messageSummaries narrow_ex summary_record_ex = [header, body]"
    and l: "length header = 47"
    and c: "le_word (take 2 header) = (ucast (channum summary_record_ex) :: 16 word)"
    and t: "le_word (take 8 (drop 39 header)) = trigFrame summary_record_ex"
    and lb: "length body = 8 * length (modelCoefs summary_record_ex)"
    and b: "\<forall>i < length (modelCoefs summary_record_ex).
          le_word (take 8 (drop (8 * i) body)) = modelCoefs summary_record_ex ! i"
    by blast
  from b h have b1: "le_word (take 8 (drop (8 * 1) body)) = modelCoefs summary_record_ex ! 1"
    by blast
  have "le_word (take 2 header) = (5 :: 16 word)"
    using c by (simp add: summary_record_ex_def)
  moreover have "le_word (take 8 (drop 39 header)) = (0x0102030405060708 :: 64 word)"
    using t by (simp add: summary_record_ex_def)
  moreover have "length body = 16"
    using lb by (simp add: summary_record_ex_def)
  moreover have "le_word (take 8 (drop (8 * 1) body)) = (0x4000000000000000 :: 64 word)"
    using b1 by (simp add: summary_record_ex_def)
  ultimately show ?thesis using h m l by blast
qed

text \<open>
  The first frame is therefore never 44 bytes long: for the example record it has 47.
\<close>

theorem messageSummaries_length_counterexample:
  "length (messageSummaries narrow_ex summary_record_ex) = 2
   \<and> length (messageSummaries narrow_ex summary_record_ex ! 0) = 47
   \<and> length (messageSummaries narrow_ex summary_record_ex ! 0) \<noteq> 44"
  by (simp add: messageSummaries_chunks length_le_bytes)

section \<open>The writing-state machine\<close>

text \<open>
  Claim C6. \<open>WriteControl\<close> with a START request (the request, upper-cased, begins with
  START) returns an error and leaves the source as it was, in particular the stored
  WritingState and every channel's writers, whenever all of WriteLJH22, WriteLJH3 and
  WriteOFF are false, or some channel already has a file type enabled, or WriteOFF is
  requested and no channel has both projectors and basis non-zero. (In the third case the
  directory for the run may already have been made on disk.)
\<close>

theorem WriteControl_START_rejected:
  assumes "HasPrefix (ToUpper (Request config)) ''START''"
    and "(\<not> WriteLJH22 config \<and> \<not> WriteLJH3 config \<and> \<not> WriteOFF config)
        \<or> (\<exists>dsp \<in> set (processors ds).
              HasLJH22 (Publisher dsp) \<or> HasOFF (Publisher dsp) \<or> HasLJH3 (Publisher dsp))
        \<or> (WriteOFF config \<and> \<not> (\<exists>dsp \<in> set (processors ds).
              \<not> IsZero (projectors dsp) \<and> \<not> IsZero (basis dsp)))"
  shows "\<exists>err ds' w'. WriteControl w ds config = Return (Some err, ds', w')
           \<and> ds' = ds
           \<and> writingState ds' = writingState ds
           \<and> map Publisher (processors ds') = map Publisher (processors ds)"
proof -
  from START_checks_fail [OF assms]
  obtain err w1 where "WriteControl_checks w ds config = (Inl err, w1)" by blast
  then have "WriteControl w ds config = Return (Some err, ds, w1)"
    by (rule WriteControl_checks_error)
  then show ?thesis by simp
qed

theorem WriteControl_START_rejected_witness:
  "HasPrefix (ToUpper (Request (request_ex ''start''))) ''START''
   \<and> (\<not> WriteLJH22 (request_ex ''start'') \<and> \<not> WriteLJH3 (request_ex ''start'')
        \<and> \<not> WriteOFF (request_ex ''start''))
   \<and> (\<exists>err w'. WriteControl world_ex source_idle (request_ex ''start'')
                   = Return (Some err, source_idle, w'))
   \<and> (\<exists>dsp \<in> set (processors source_writing).
          HasLJH22 (Publisher dsp) \<or> HasOFF (Publisher dsp) \<or> HasLJH3 (Publisher dsp))
   \<and> (\<exists>err w'. WriteControl world_ex source_writing
                   ((request_ex ''START'')\<lparr> WriteLJH22 := True, WriteOFF := False \<rparr>)
                   = Return (Some err, source_writing, w'))
   \<and> \<not> (\<exists>dsp \<in> set (processors source_idle).
            \<not> IsZero (projectors dsp) \<and> \<not> IsZero (basis dsp))
   \<and> (\<exists>err w'. WriteControl world_ex source_idle
                   ((request_ex ''START'')\<lparr> WriteLJH22 := False, WriteOFF := True \<rparr>)
                   = Return (Some err, source_idle, w'))"
proof -
  let ?cb = "(request_ex ''START'')\<lparr> WriteLJH22 := True, WriteOFF := False \<rparr>"
  let ?cc = "(request_ex ''START'')\<lparr> WriteLJH22 := False, WriteOFF := True \<rparr>"
  have a: "\<not> WriteLJH22 (request_ex ''start'') \<and> \<not> WriteLJH3 (request_ex ''start'')
        \<and> \<not> WriteOFF (request_ex ''start'')"
    by (simp add: request_ex_def)
  have b: "\<exists>dsp \<in> set (processors source_writing).
          HasLJH22 (Publisher dsp) \<or> HasOFF (Publisher dsp) \<or> HasLJH3 (Publisher dsp)"
    by (simp add: source_writing_def source_idle_def processor_ex_def publisher_idle_def
        HasLJH22_def)
  have c: "\<not> (\<exists>dsp \<in> set (processors source_idle).
            \<not> IsZero (projectors dsp) \<and> \<not> IsZero (basis dsp))"
    by (simp add: source_idle_def processor_ex_def)
  have c': "WriteOFF ?cc" by simp
  have ra: "\<exists>err w'. WriteControl world_ex source_idle (request_ex ''start'')
                   = Return (Some err, source_idle, w')"
    using WriteControl_START_rejected
      [where config = "request_ex ''start''" and ds = source_idle and w = world_ex,
       OF HasPrefix_start_lower disjI1 [OF a]]
    by blast
  have rb: "\<exists>err w'. WriteControl world_ex source_writing ?cb
                   = Return (Some err, source_writing, w')"
    using WriteControl_START_rejected
      [where config = ?cb and ds = source_writing and w = world_ex,
       OF HasPrefix_START_upper disjI2 [OF disjI1 [OF b]]]
    by blast
  have rc: "\<exists>err w'. WriteControl world_ex source_idle ?cc
                   = Return (Some err, source_idle, w')"
    using WriteControl_START_rejected
      [where config = ?cc and ds = source_idle and w = world_ex,
       OF HasPrefix_START_upper disjI2 [OF disjI2 [OF conjI [OF c' c]]]]
    by blast
  show ?thesis
    using HasPrefix_start_lower a b c ra rb rc by blast
qed

section \<open>The reply of the RPC method WriteControl\<close>

text \<open>
  Claim C1 asks that the boolean reply of \<open>SourceControl.WriteControl\<close> be true exactly
  when the source's \<open>WriteControl\<close> returned nil. The method sets
  \<open>*reply = (err != nil)\<close>: on the example source a PAUSE request succeeds (the source's
  \<open>WriteControl\<close> returns nil and pauses both channels) and the reply is false.
\<close>

theorem SourceControl_WriteControl_reply_false_on_success:
  "WriteControl world_ex source_writing (request_ex ''PAUSE'') =
     Return (None,
             source_writing
               \<lparr> processors := pause_all True (processors source_writing),
                 writingState := (writingState source_writing)\<lparr> Paused := True \<rparr> \<rparr>,
             world_ex)
   \<and> SourceControl_WriteControl world_ex \<lparr> activeSource = Some source_writing \<rparr>
        (request_ex ''PAUSE'') =
     Return (False, None,
             \<lparr> activeSource = Some (source_writing
               \<lparr> processors := pause_all True (processors source_writing),
                 writingState := (writingState source_writing)\<lparr> Paused := True \<rparr> \<rparr>) \<rparr>,
             world_ex)"
  by (simp add: SourceControl_WriteControl_def WriteControl_PAUSE_example)

section \<open>The experiment-state file\<close>

text \<open>
  Claim C3 asks that each call of \<open>SetExperimentStateLabel\<close> append a line
  \<open>"<t>, <label>\n"\<close> with \<open>t\<close> the time of the call in nanoseconds since the Unix epoch.
  The method takes \<open>time.Now().Nanosecond()\<close>, the nanoseconds within the current second.
  Called first at 1500000000123456789 ns after the epoch with label \<open>run1\<close>, it creates
  the file, writes the header (with no line break after it) and then the line
  \<open>"123456789, run1\n"\<close>, and stores 123456789 as \<open>ExperimentStateLabelUnixNano\<close>.
\<close>

theorem SetExperimentStateLabel_writes_Nanosecond:
  "fst (SetExperimentStateLabel world_ex writingState_active ''run1'') = None
   \<and> disk (snd (snd (SetExperimentStateLabel world_ex writingState_active ''run1'')))
        (ExperimentStateFilename writingState_active)
      = Some (''# unix time in nanoseconds, state label'' @ ''123456789, run1'' @ [CHR 0x0A])
   \<and> ExperimentStateLabelUnixNano
        (fst (snd (SetExperimentStateLabel world_ex writingState_active ''run1''))) = 123456789
   \<and> UnixNano (now world_ex) = 1500000000123456789"
  unfolding SetExperimentStateLabel_example
  by (simp add: world_ex_def UnixNano_def)

section \<open>Changing the trigger state\<close>

text \<open>
  Claim C5 asks that \<open>ChangeTriggerState\<close> return an error, without panicking and without
  a partial update, whenever an index lies outside \<open>[0, nchan)\<close>, negative ones included.
  The method only rejects indices \<open>>= ds.nchan\<close>. On the two-channel example source the
  index list \<open>[0, -1]\<close> passes that check; channel 0 is reconfigured and then
  \<open>ds.processors[-1]\<close> panics.
\<close>

theorem ChangeTriggerState_negative_index_panics:
  "ChangeTriggerState source_idle \<lparr> ChannelIndicies = [0, - 1], fts_TriggerState = 7 \<rparr> = Panic"
  by (simp add: ChangeTriggerState_def source_idle_def ConfigureTrigger_def)

section \<open>Stopping the writing\<close>

text \<open>
  Claim C7 asks that after a STOP request, from any writing state, the stored
  WritingState be cleared and every channel's LJH22, LJH3 and OFF writer be closed and
  removed. \<open>RemoveOFF\<close> calls \<open>Close\<close> on the OFF writer without the nil guard that
  \<open>RemoveLJH22\<close> and \<open>RemoveLJH3\<close> have. On the example source, writing LJH22 on
  channel 0 and no OFF file, and on the idle source, a STOP request panics in \<open>RemoveOFF\<close>
  of channel 0, before the WritingState is stored.
\<close>

theorem WriteControl_STOP_panics_without_OFF:
  "WriteControl world_ex source_writing (request_ex ''STOP'') = Panic
   \<and> WriteControl world_ex source_idle (request_ex ''STOP'') = Panic"
proof -
  have a: "stop_all w (processors source_writing) = Panic" for w
    by (rule stop_all_missing_OFF)
       (simp add: source_writing_def source_idle_def processor_ex_def publisher_idle_def)
  have b: "stop_all w (processors source_idle) = Panic" for w
    by (rule stop_all_missing_OFF)
       (simp add: source_idle_def processor_ex_def publisher_idle_def)
  show ?thesis
    by (simp add: WriteControl_def WriteControl_checks_def request_ex_def HasPrefix_STOP a b)
qed

end
